theory Spec2Isabelle
  imports Main "HOL-Library.Word"
begin

section \<open>The verified registry actor (actors/builtin/verifreg)\<close>

subsection \<open>Data model\<close>

text \<open>
  An address is either in id form or in a robust (key) form. Go compares addresses
  with \<open>==\<close> on the underlying value, which is HOL equality here.
\<close>

datatype Address = ID nat | Key string

text \<open>DataCap and abi.StoragePower are both big.Int: unbounded signed integers.\<close>

type_synonym DataCap = int
type_synonym StoragePower = int

text \<open>
  The exit codes of the runtime (package exitcode): \<open>Ok\<close>, the system codes and the
  codes common to the actors. A message sent to another actor returns one of them,
  and the actor aborts with one. \<open>SysErrForbidden\<close> is the code of a failed caller
  validation by the runtime. A failed \<open>Assert\<close> is a panic, not an exit code.
\<close>

datatype ExitCode =
    Ok
  | SysErrSenderInvalid
  | SysErrSenderStateInvalid
  | SysErrInvalidMethod
  | SysErrInvalidReceiver
  | SysErrInsufficientFunds
  | SysErrOutOfGas
  | SysErrForbidden
  | ErrIllegalArgument
  | ErrNotFound
  | ErrForbidden
  | ErrInsufficientFunds
  | ErrIllegalState
  | ErrSerialization

datatype Failure = Abort ExitCode | AssertionFailed

text \<open>
  A Go \<open>error\<close> value, as far as the actor looks at it: an error either wraps an exit
  code (\<open>code.Wrapf\<close>) or carries none (\<open>fmt.Errorf\<close>).
\<close>

datatype Error = ExitCodeError ExitCode | PlainError

text \<open>
  The actor state. The two HAMT roots are modelled by the mappings they denote
  (equal contents give equal roots), so \<open>adt.AsMap\<close> on a root and \<open>Root()\<close> on a map
  are the identity. The block store under the HAMT is taken to be healthy: loading,
  reading, writing and flushing a map return no error, so the \<open>RequireNoErr\<close> after
  each of them does not abort. Deleting an absent key is the one map error modelled;
  it wraps no exit code, so its \<open>RequireNoErr\<close> aborts with the default it is given.
\<close>

record State =
  RootKey :: Address
  Verifiers :: "Address \<rightharpoonup> DataCap"
  VerifiedClients :: "Address \<rightharpoonup> DataCap"

text \<open>
  What a method sees of the runtime during one invocation: the immediate caller, the
  address resolution table, and what sending a zero balance to an address does: the
  exit code of the send and the resolution table after it (a successful send to a
  key address creates the account and with it the id).
\<close>

record Runtime =
  Caller :: Address
  ResolveAddress :: "Address \<Rightarrow> Address option"
  Send :: "Address \<Rightarrow> ExitCode \<times> (Address \<Rightarrow> Address option)"

text \<open>
  The constants the actor uses that are declared outside the two source files: the
  addresses of the system actor and of the storage market actor, and the minimum
  verified deal size. They are parameters of every method.
\<close>

record Builtin =
  SystemActorAddr :: Address
  StorageMarketActorAddr :: Address
  MinVerifiedDealSize :: StoragePower

record AddVerifierParams =
  Address :: Address
  Allowance :: DataCap

record AddVerifiedClientParams =
  Address :: Address
  Allowance :: DataCap

record UseBytesParams =
  Address :: Address
  DealSize :: StoragePower

record RestoreBytesParams =
  Address :: Address
  DealSize :: StoragePower

subsection \<open>Helpers declared outside the source files\<close>

text \<open>
  Modelled from the spec: \<open>exitcode.Unwrap\<close> and \<open>builtin.RequireNoErr\<close> are not among
  the source files. The spec gives, for each check, the exit code that the call site
  passes to \<open>RequireNoErr\<close>. That code is a default: in the repository \<open>RequireNoErr\<close>
  aborts with the exit code the error wraps, and with the default only when the
  error wraps none.
\<close>

fun Unwrap :: "Error \<Rightarrow> ExitCode \<Rightarrow> ExitCode" where
  "Unwrap (ExitCodeError code) defaultExitCode = code"
| "Unwrap PlainError defaultExitCode = defaultExitCode"

definition RequireNoErr :: "Error \<Rightarrow> ExitCode \<Rightarrow> Failure" where
  "RequireNoErr err defaultExitCode = Abort (Unwrap err defaultExitCode)"

text \<open>
  Modelled from the spec: \<open>builtin.ResolveToIDAddr\<close> is not among the source files.
  The spec says of every method that the address parameter ``resolves to id-form''
  or the call fails. In the repository the helper returns the id when the runtime
  resolves the address. Otherwise it sends a zero balance to the address, so that
  an id is created for it: a send that fails is returned as an error wrapping the
  exit code of the send; after a send that succeeds the helper resolves again, and
  returns the id, or an error without exit code when there still is none.
\<close>

definition ResolveToIDAddr :: "Runtime \<Rightarrow> Address \<Rightarrow> Error + Address" where
  "ResolveToIDAddr rt address =
     (case ResolveAddress rt address of
        Some idAddr \<Rightarrow> Inr idAddr
      | None \<Rightarrow>
          let (code, resolveAfter) = Send rt address
          in if code \<noteq> Ok then Inl (ExitCodeError code)
             else case resolveAfter address of
                    Some idAddr \<Rightarrow> Inr idAddr
                  | None \<Rightarrow> Inl PlainError)"

text \<open>
  Modelled from the spec: \<open>ConstructState\<close> is not among the source files. The spec:
  ``stores the id-form root key and two empty map roots''.
\<close>

definition ConstructState :: "(Address \<rightharpoonup> DataCap) \<Rightarrow> Address \<Rightarrow> State" where
  "ConstructState emptyMap rootKeyAddr =
     \<lparr>RootKey = rootKeyAddr, Verifiers = emptyMap, VerifiedClients = emptyMap\<rparr>"

text \<open>
  Modelled from the spec: the persistent map \<open>adt.Map\<close> is not among the source files.
  The spec: ``\<open>Get(key, out?) \<rightarrow> found\<close>, \<open>Put(key, value)\<close>,
  \<open>Delete(key) \<rightarrow> err if absent\<close>''.
\<close>

definition Map_Get :: "(Address \<rightharpoonup> DataCap) \<Rightarrow> Address \<Rightarrow> DataCap option" where
  "Map_Get m k = m k"

definition Map_Put :: "(Address \<rightharpoonup> DataCap) \<Rightarrow> Address \<Rightarrow> DataCap \<Rightarrow> (Address \<rightharpoonup> DataCap)" where
  "Map_Put m k v = m(k \<mapsto> v)"

definition Map_Delete :: "(Address \<rightharpoonup> DataCap) \<Rightarrow> Address \<Rightarrow> (Address \<rightharpoonup> DataCap) option" where
  "Map_Delete m k = (case m k of None \<Rightarrow> None | Some v \<Rightarrow> Some (m(k := None)))"

subsection \<open>Actor methods\<close>

text \<open>
  Every method returns \<open>Inl\<close> of the failure it stops with, or \<open>Inr\<close> of the state it
  commits. An abort inside \<open>Transaction\<close> commits nothing, so a failing call has no
  state to return.
\<close>

definition Constructor :: "Builtin \<Rightarrow> Runtime \<Rightarrow> Address \<Rightarrow> Failure + State" where
  "Constructor k rt rootKey =
     (if Caller rt \<noteq> SystemActorAddr k then Inl (Abort SysErrForbidden)
      else case ResolveAddress rt rootKey of
        None \<Rightarrow> Inl (Abort ErrIllegalArgument)
      | Some idAddr \<Rightarrow> Inr (ConstructState Map.empty idAddr))"

definition AddVerifier :: "Builtin \<Rightarrow> Runtime \<Rightarrow> State \<Rightarrow> AddVerifierParams \<Rightarrow> Failure + State" where
  "AddVerifier k rt st params =
     (if AddVerifierParams.Allowance params < MinVerifiedDealSize k
      then Inl (Abort ErrIllegalArgument)
      else case ResolveToIDAddr rt (AddVerifierParams.Address params) of
        Inl err \<Rightarrow> Inl (RequireNoErr err ErrIllegalState)
      | Inr verifier \<Rightarrow>
          if Caller rt \<noteq> RootKey st then Inl (Abort SysErrForbidden)
          else if verifier = RootKey st then Inl (Abort ErrIllegalArgument)
          else
            let verifiers = Verifiers st;
                verifiedClients = VerifiedClients st
            in case Map_Get verifiedClients verifier of
                 Some found \<Rightarrow> Inl (Abort ErrIllegalArgument)
               | None \<Rightarrow>
                   Inr (st\<lparr>Verifiers :=
                     Map_Put verifiers verifier (AddVerifierParams.Allowance params)\<rparr>))"

definition RemoveVerifier :: "Builtin \<Rightarrow> Runtime \<Rightarrow> State \<Rightarrow> Address \<Rightarrow> Failure + State" where
  "RemoveVerifier k rt st verifierAddr =
     (case ResolveToIDAddr rt verifierAddr of
        Inl err \<Rightarrow> Inl (RequireNoErr err ErrIllegalState)
      | Inr verifier \<Rightarrow>
          if Caller rt \<noteq> RootKey st then Inl (Abort SysErrForbidden)
          else case Map_Delete (Verifiers st) verifier of
                 None \<Rightarrow> Inl (Abort ErrIllegalState)
               | Some verifiers \<Rightarrow> Inr (st\<lparr>Verifiers := verifiers\<rparr>))"

definition AddVerifiedClient ::
  "Builtin \<Rightarrow> Runtime \<Rightarrow> State \<Rightarrow> AddVerifiedClientParams \<Rightarrow> Failure + State" where
  "AddVerifiedClient k rt st params =
     (if AddVerifiedClientParams.Allowance params < MinVerifiedDealSize k
      then Inl (Abort ErrIllegalArgument)
      else case ResolveToIDAddr rt (AddVerifiedClientParams.Address params) of
        Inl err \<Rightarrow> Inl (RequireNoErr err ErrIllegalState)
      | Inr client \<Rightarrow>
          if RootKey st = client then Inl (Abort ErrIllegalArgument)
          else
            let verifiers = Verifiers st;
                verifiedClients = VerifiedClients st;
                verifier = Caller rt
            in case Map_Get verifiers verifier of
                 None \<Rightarrow> Inl (Abort ErrNotFound)
               | Some verifierCap \<Rightarrow>
                   (case Map_Get verifiers client of
                      Some found \<Rightarrow> Inl (Abort ErrIllegalArgument)
                    | None \<Rightarrow>
                        if verifierCap < AddVerifiedClientParams.Allowance params
                        then Inl (Abort ErrIllegalArgument)
                        else
                          let newVerifierCap =
                                verifierCap - AddVerifiedClientParams.Allowance params;
                              verifiers' = Map_Put verifiers verifier newVerifierCap
                          in case Map_Get verifiedClients client of
                               Some found \<Rightarrow> Inl (Abort ErrIllegalArgument)
                             | None \<Rightarrow>
                                 Inr (st\<lparr>Verifiers := verifiers',
                                         VerifiedClients :=
                                           Map_Put verifiedClients client
                                             (AddVerifiedClientParams.Allowance params)\<rparr>)))"

definition UseBytes :: "Builtin \<Rightarrow> Runtime \<Rightarrow> State \<Rightarrow> UseBytesParams \<Rightarrow> Failure + State" where
  "UseBytes k rt st params =
     (if Caller rt \<noteq> StorageMarketActorAddr k then Inl (Abort SysErrForbidden)
      else case ResolveToIDAddr rt (UseBytesParams.Address params) of
        Inl err \<Rightarrow> Inl (RequireNoErr err ErrIllegalState)
      | Inr client \<Rightarrow>
          if UseBytesParams.DealSize params < MinVerifiedDealSize k
          then Inl (Abort ErrIllegalArgument)
          else
            let verifiedClients = VerifiedClients st
            in case Map_Get verifiedClients client of
                 None \<Rightarrow> Inl (Abort ErrNotFound)
               | Some vcCap \<Rightarrow>
                   if \<not> vcCap \<ge> 0 then Inl AssertionFailed
                   else if UseBytesParams.DealSize params > vcCap
                   then Inl (Abort ErrIllegalArgument)
                   else
                     let newVcCap = vcCap - UseBytesParams.DealSize params
                     in if newVcCap < MinVerifiedDealSize k
                        then (case Map_Delete verifiedClients client of
                                None \<Rightarrow> Inl (Abort ErrIllegalState)
                              | Some vcs \<Rightarrow> Inr (st\<lparr>VerifiedClients := vcs\<rparr>))
                        else Inr (st\<lparr>VerifiedClients :=
                                     Map_Put verifiedClients client newVcCap\<rparr>))"

definition RestoreBytes ::
  "Builtin \<Rightarrow> Runtime \<Rightarrow> State \<Rightarrow> RestoreBytesParams \<Rightarrow> Failure + State" where
  "RestoreBytes k rt st params =
     (if Caller rt \<noteq> StorageMarketActorAddr k then Inl (Abort SysErrForbidden)
      else if RestoreBytesParams.DealSize params < MinVerifiedDealSize k
      then Inl (Abort ErrIllegalArgument)
      else case ResolveToIDAddr rt (RestoreBytesParams.Address params) of
        Inl err \<Rightarrow> Inl (RequireNoErr err ErrIllegalState)
      | Inr client \<Rightarrow>
          if RootKey st = client then Inl (Abort ErrIllegalArgument)
          else
            let verifiedClients = VerifiedClients st;
                verifiers = Verifiers st
            in case Map_Get verifiers client of
                 Some found \<Rightarrow> Inl (Abort ErrIllegalArgument)
               | None \<Rightarrow>
                   let vcCap = (case Map_Get verifiedClients client of
                                  None \<Rightarrow> 0 | Some c \<Rightarrow> c);
                       newVcCap = vcCap + RestoreBytesParams.DealSize params
                   in Inr (st\<lparr>VerifiedClients :=
                                Map_Put verifiedClients client newVcCap\<rparr>))"

subsection \<open>Sequences of calls\<close>

text \<open>
  The methods exported after the constructor (method numbers 2 to 6), each with its
  parameters. A message is a call together with the runtime it is delivered in.
\<close>

datatype Call =
    CallAddVerifier AddVerifierParams
  | CallRemoveVerifier Address
  | CallAddVerifiedClient AddVerifiedClientParams
  | CallUseBytes UseBytesParams
  | CallRestoreBytes RestoreBytesParams

fun invoke :: "Builtin \<Rightarrow> Runtime \<Rightarrow> State \<Rightarrow> Call \<Rightarrow> Failure + State" where
  "invoke k rt st (CallAddVerifier p) = AddVerifier k rt st p"
| "invoke k rt st (CallRemoveVerifier a) = RemoveVerifier k rt st a"
| "invoke k rt st (CallAddVerifiedClient p) = AddVerifiedClient k rt st p"
| "invoke k rt st (CallUseBytes p) = UseBytes k rt st p"
| "invoke k rt st (CallRestoreBytes p) = RestoreBytes k rt st p"

text \<open>
  Delivering a list of messages in order; the run stops at the first call that does
  not commit, so \<open>Inr\<close> is the state after a sequence of committed calls.
\<close>

fun invoke_all :: "Builtin \<Rightarrow> State \<Rightarrow> (Runtime \<times> Call) list \<Rightarrow> Failure + State" where
  "invoke_all k st [] = Inr st"
| "invoke_all k st ((rt, c) # ms) =
     (case invoke k rt st c of Inl e \<Rightarrow> Inl e | Inr st' \<Rightarrow> invoke_all k st' ms)"

subsection \<open>Invariants of the state\<close>

text \<open>No address is a key of both maps.\<close>

definition disjoint_roles :: "State \<Rightarrow> bool" where
  "disjoint_roles st \<longleftrightarrow> (\<forall>a. Verifiers st a \<noteq> None \<longrightarrow> VerifiedClients st a = None)"

text \<open>The root key is a key of neither map.\<close>

definition root_isolated :: "State \<Rightarrow> bool" where
  "root_isolated st \<longleftrightarrow>
     Verifiers st (RootKey st) = None \<and> VerifiedClients st (RootKey st) = None"

text \<open>Every stored cap is non-negative.\<close>

definition caps_nonneg :: "State \<Rightarrow> bool" where
  "caps_nonneg st \<longleftrightarrow>
     (\<forall>a v. Verifiers st a = Some v \<longrightarrow> 0 \<le> v) \<and>
     (\<forall>a v. VerifiedClients st a = Some v \<longrightarrow> 0 \<le> v)"

text \<open>Every stored client cap is at least the minimum verified deal size.\<close>

definition clients_floor :: "Builtin \<Rightarrow> State \<Rightarrow> bool" where
  "clients_floor k st \<longleftrightarrow>
     (\<forall>a v. VerifiedClients st a = Some v \<longrightarrow> MinVerifiedDealSize k \<le> v)"

section \<open>Block stores (support/ipld)\<close>

text \<open>
  A block has its raw bytes and its content identifier. An error is its message.
  The interface \<open>IpldBlockstore\<close> is a pair of operations on the state of the store
  behind it; \<open>Get\<close> returns the block or the error, \<open>Put\<close> the error if any.
\<close>

type_synonym Cid = "8 word list"

record Block =
  RawData :: "8 word list"
  Cid :: Cid

record 's IpldBlockstore =
  Get :: "'s \<Rightarrow> Cid \<Rightarrow> (string + Block) \<times> 's"
  Put :: "'s \<Rightarrow> Block \<Rightarrow> string option \<times> 's"

record BlockStoreInMemory =
  data :: "Cid \<rightharpoonup> Block"

definition NewBlockStoreInMemory :: BlockStoreInMemory where
  "NewBlockStoreInMemory = \<lparr>data = Map.empty\<rparr>"

definition BlockStoreInMemory_Get ::
  "BlockStoreInMemory \<Rightarrow> Cid \<Rightarrow> (string + Block) \<times> BlockStoreInMemory" where
  "BlockStoreInMemory_Get mb c =
     (case data mb c of Some d \<Rightarrow> (Inr d, mb) | None \<Rightarrow> (Inl ''not found'', mb))"

definition BlockStoreInMemory_Put ::
  "BlockStoreInMemory \<Rightarrow> Block \<Rightarrow> string option \<times> BlockStoreInMemory" where
  "BlockStoreInMemory_Put mb b = (None, mb\<lparr>data := (data mb)(Cid b \<mapsto> b)\<rparr>)"

definition BlockStoreInMemory_impl :: "BlockStoreInMemory IpldBlockstore" where
  "BlockStoreInMemory_impl = \<lparr>Get = BlockStoreInMemory_Get, Put = BlockStoreInMemory_Put\<rparr>"

text \<open>The counters are \<open>uint64\<close>: they wrap around at \<open>2 ^ 64\<close>.\<close>

record 's MetricsBlockStore =
  bs :: 's
  Writes :: "64 word"
  WriteBytes :: "64 word"
  Reads :: "64 word"
  ReadBytes :: "64 word"

definition NewMetricsBlockStore :: "'s \<Rightarrow> 's MetricsBlockStore" where
  "NewMetricsBlockStore underlying =
     \<lparr>bs = underlying, Writes = 0, WriteBytes = 0, Reads = 0, ReadBytes = 0\<rparr>"

definition MetricsBlockStore_Get ::
  "'s IpldBlockstore \<Rightarrow> 's MetricsBlockStore \<Rightarrow> Cid \<Rightarrow> (string + Block) \<times> 's MetricsBlockStore"
  where
  "MetricsBlockStore_Get u ms c =
     (let ms1 = ms\<lparr>Reads := Reads ms + 1\<rparr>;
          (r, s) = Get u (bs ms1) c;
          ms2 = ms1\<lparr>bs := s\<rparr>
      in case r of
           Inl err \<Rightarrow> (Inl err, ms2)
         | Inr blk \<Rightarrow>
             (Inr blk, ms2\<lparr>ReadBytes := ReadBytes ms2 + of_nat (length (RawData blk))\<rparr>))"

definition MetricsBlockStore_Put ::
  "'s IpldBlockstore \<Rightarrow> 's MetricsBlockStore \<Rightarrow> Block \<Rightarrow> string option \<times> 's MetricsBlockStore"
  where
  "MetricsBlockStore_Put u ms b =
     (let ms1 = ms\<lparr>Writes := Writes ms + 1\<rparr>;
          ms2 = ms1\<lparr>WriteBytes := WriteBytes ms1 + of_nat (length (RawData b))\<rparr>;
          (err, s) = Put u (bs ms2) b
      in (err, ms2\<lparr>bs := s\<rparr>))"

definition ReadCount :: "'s MetricsBlockStore \<Rightarrow> 64 word" where
  "ReadCount ms = Reads ms"

definition WriteCount :: "'s MetricsBlockStore \<Rightarrow> 64 word" where
  "WriteCount ms = Writes ms"

definition ReadSize :: "'s MetricsBlockStore \<Rightarrow> 64 word" where
  "ReadSize ms = ReadBytes ms"

definition WriteSize :: "'s MetricsBlockStore \<Rightarrow> 64 word" where
  "WriteSize ms = WriteBytes ms"

section \<open>Example inputs\<close>

text \<open>
  The first scenario of the specification, with minimum \<open>1024\<close>: root key \<open>ID 100\<close>,
  verifier \<open>ID 101\<close>, client \<open>ID 102\<close>. Id addresses resolve to themselves, the key
  address \<open>client\<close> resolves to \<open>ID 102\<close>, and no other key address resolves. A send to
  the key address \<open>ghost\<close> succeeds and leaves it without an id; a send to any other
  address is refused with \<open>SysErrInvalidReceiver\<close>.
\<close>

definition example_builtin :: Builtin where
  "example_builtin =
     \<lparr>SystemActorAddr = ID 0, StorageMarketActorAddr = ID 5, MinVerifiedDealSize = 1024\<rparr>"

definition example_resolve :: "Address \<Rightarrow> Address option" where
  "example_resolve a =
     (case a of ID n \<Rightarrow> Some (ID n)
      | Key s \<Rightarrow> if s = ''client'' then Some (ID 102) else None)"

definition example_rt :: "Address \<Rightarrow> Runtime" where
  "example_rt c =
     \<lparr>Caller = c, ResolveAddress = example_resolve,
      Send = (\<lambda>a. if a = Key ''ghost'' then (Ok, example_resolve)
                  else (SysErrInvalidReceiver, example_resolve))\<rparr>"

definition example_init :: State where
  "example_init = \<lparr>RootKey = ID 100, Verifiers = Map.empty, VerifiedClients = Map.empty\<rparr>"

definition example_calls :: "(Runtime \<times> Call) list" where
  "example_calls =
     [(example_rt (ID 100),
       CallAddVerifier \<lparr>AddVerifierParams.Address = ID 101,
                        AddVerifierParams.Allowance = 10000\<rparr>),
      (example_rt (ID 101),
       CallAddVerifiedClient \<lparr>AddVerifiedClientParams.Address = Key ''client'',
                              AddVerifiedClientParams.Allowance = 4000\<rparr>)]"

definition example_state :: State where
  "example_state =
     \<lparr>RootKey = ID 100,
      Verifiers = [ID 101 \<mapsto> 6000],
      VerifiedClients = [ID 102 \<mapsto> 4000]\<rparr>"

text \<open>A store whose every operation fails, and a block of five bytes.\<close>

definition failing_store :: "unit IpldBlockstore" where
  "failing_store = \<lparr>Get = (\<lambda>s c. (Inl ''unavailable'', s)),
                     Put = (\<lambda>s b. (Some ''unavailable'', s))\<rparr>"

definition example_block :: Block where
  "example_block = \<lparr>RawData = [1, 2, 3, 4, 5], Cid = [7]\<rparr>"

section \<open>Properties of the verified registry\<close>

subsection \<open>What a committed call has checked and written\<close>

lemmas method_defs = AddVerifier_def RemoveVerifier_def AddVerifiedClient_def UseBytes_def
  RestoreBytes_def Map_Get_def Map_Put_def Map_Delete_def

lemmas resolve_defs = ResolveToIDAddr_def RequireNoErr_def

lemma invoke_all_induct_inv:
  assumes step: "\<And>rt st c st'. P st \<Longrightarrow> invoke k rt st c = Inr st' \<Longrightarrow> P st'"
    and "P st" and "invoke_all k st ms = Inr st'"
  shows "P st'"
  using assms(2,3)
proof (induction ms arbitrary: st)
  case Nil
  then show ?case by simp
next
  case (Cons m ms)
  obtain rt c where m: "m = (rt, c)" by (cases m)
  from Cons.prems(2) m obtain st1 where s1: "invoke k rt st c = Inr st1"
    and rest: "invoke_all k st1 ms = Inr st'"
    by (auto split: sum.splits)
  from step[OF Cons.prems(1) s1] have "P st1" .
  from Cons.IH[OF this rest] show ?case .
qed

lemma Constructor_Inr:
  "Constructor k rt rootKey = Inr st \<Longrightarrow>
     Verifiers st = Map.empty \<and> VerifiedClients st = Map.empty
     \<and> ResolveAddress rt rootKey = Some (RootKey st)"
  by (auto simp: Constructor_def ConstructState_def split: if_splits option.splits)

lemma AddVerifier_Inr:
  assumes "AddVerifier k rt st p = Inr st'"
  obtains verifier where
    "MinVerifiedDealSize k \<le> AddVerifierParams.Allowance p"
    "ResolveToIDAddr rt (AddVerifierParams.Address p) = Inr verifier"
    "Caller rt = RootKey st" "verifier \<noteq> RootKey st"
    "VerifiedClients st verifier = None"
    "st' = st\<lparr>Verifiers := (Verifiers st)(verifier \<mapsto> AddVerifierParams.Allowance p)\<rparr>"
  using assms
  by (auto simp: method_defs Let_def split: if_splits option.splits sum.splits)

lemma RemoveVerifier_Inr:
  assumes "RemoveVerifier k rt st a = Inr st'"
  obtains verifier cap where
    "ResolveToIDAddr rt a = Inr verifier"
    "Caller rt = RootKey st"
    "Verifiers st verifier = Some cap"
    "st' = st\<lparr>Verifiers := (Verifiers st)(verifier := None)\<rparr>"
  using assms
  by (auto simp: method_defs Let_def split: if_splits option.splits sum.splits)

lemma AddVerifiedClient_Inr:
  assumes "AddVerifiedClient k rt st p = Inr st'"
  obtains client verifierCap where
    "MinVerifiedDealSize k \<le> AddVerifiedClientParams.Allowance p"
    "ResolveToIDAddr rt (AddVerifiedClientParams.Address p) = Inr client"
    "RootKey st \<noteq> client"
    "Verifiers st (Caller rt) = Some verifierCap"
    "Verifiers st client = None"
    "AddVerifiedClientParams.Allowance p \<le> verifierCap"
    "VerifiedClients st client = None"
    "st' = st\<lparr>Verifiers := (Verifiers st)(Caller rt \<mapsto>
                    verifierCap - AddVerifiedClientParams.Allowance p),
               VerifiedClients := (VerifiedClients st)(client \<mapsto>
                    AddVerifiedClientParams.Allowance p)\<rparr>"
  using assms
  by (auto simp: method_defs Let_def split: if_splits option.splits sum.splits)

lemma UseBytes_Inr:
  assumes "UseBytes k rt st p = Inr st'"
  obtains client vcCap where
    "Caller rt = StorageMarketActorAddr k"
    "ResolveToIDAddr rt (UseBytesParams.Address p) = Inr client"
    "MinVerifiedDealSize k \<le> UseBytesParams.DealSize p"
    "VerifiedClients st client = Some vcCap"
    "0 \<le> vcCap" "UseBytesParams.DealSize p \<le> vcCap"
    "st' = st\<lparr>VerifiedClients :=
             (if vcCap - UseBytesParams.DealSize p < MinVerifiedDealSize k
              then (VerifiedClients st)(client := None)
              else (VerifiedClients st)(client \<mapsto> vcCap - UseBytesParams.DealSize p))\<rparr>"
  using assms
  by (auto simp: method_defs Let_def split: if_splits option.splits sum.splits)

lemma RestoreBytes_Inr:
  assumes "RestoreBytes k rt st p = Inr st'"
  obtains client where
    "Caller rt = StorageMarketActorAddr k"
    "MinVerifiedDealSize k \<le> RestoreBytesParams.DealSize p"
    "ResolveToIDAddr rt (RestoreBytesParams.Address p) = Inr client"
    "RootKey st \<noteq> client"
    "Verifiers st client = None"
    "st' = st\<lparr>VerifiedClients := (VerifiedClients st)(client \<mapsto>
             (case VerifiedClients st client of None \<Rightarrow> 0 | Some c \<Rightarrow> c)
               + RestoreBytesParams.DealSize p)\<rparr>"
  using assms
  by (auto simp: method_defs Let_def split: if_splits option.splits sum.splits)

lemmas invoke_Inr = AddVerifier_Inr RemoveVerifier_Inr AddVerifiedClient_Inr UseBytes_Inr
  RestoreBytes_Inr

lemma invoke_disjoint_roles:
  assumes inv: "disjoint_roles st" and step: "invoke k rt st c = Inr st'"
  shows "disjoint_roles st'"
proof -
  have pt: "Verifiers st a = Some x \<Longrightarrow> VerifiedClients st a = None" for a x
    using inv by (auto simp: disjoint_roles_def)
  show ?thesis
  proof (cases c)
    case (CallAddVerifier p)
    with step have "AddVerifier k rt st p = Inr st'" by simp
    then show ?thesis
    proof (rule AddVerifier_Inr)
      fix verifier
      assume "VerifiedClients st verifier = None"
        and "st' = st\<lparr>Verifiers := (Verifiers st)(verifier \<mapsto> AddVerifierParams.Allowance p)\<rparr>"
      then show ?thesis by (auto simp: disjoint_roles_def dest: pt)
    qed
  next
    case (CallRemoveVerifier a)
    with step have "RemoveVerifier k rt st a = Inr st'" by simp
    then show ?thesis
    proof (rule RemoveVerifier_Inr)
      fix verifier
      assume "st' = st\<lparr>Verifiers := (Verifiers st)(verifier := None)\<rparr>"
      then show ?thesis by (auto simp: disjoint_roles_def dest: pt)
    qed
  next
    case (CallAddVerifiedClient p)
    with step have "AddVerifiedClient k rt st p = Inr st'" by simp
    then show ?thesis
    proof (rule AddVerifiedClient_Inr)
      fix client verifierCap
      assume u: "Verifiers st (Caller rt) = Some verifierCap"
        and c: "Verifiers st client = None"
        and st': "st' = st\<lparr>Verifiers := (Verifiers st)(Caller rt \<mapsto>
                    verifierCap - AddVerifiedClientParams.Allowance p),
               VerifiedClients := (VerifiedClients st)(client \<mapsto>
                    AddVerifiedClientParams.Allowance p)\<rparr>"
      from u c have ne: "client \<noteq> Caller rt" by auto
      from u have "VerifiedClients st (Caller rt) = None" by (rule pt)
      with st' c ne show ?thesis by (auto simp: disjoint_roles_def dest: pt)
    qed
  next
    case (CallUseBytes p)
    with step have "UseBytes k rt st p = Inr st'" by simp
    then show ?thesis
    proof (rule UseBytes_Inr)
      fix client vcCap
      assume vc: "VerifiedClients st client = Some vcCap"
        and st': "st' = st\<lparr>VerifiedClients :=
             (if vcCap - UseBytesParams.DealSize p < MinVerifiedDealSize k
              then (VerifiedClients st)(client := None)
              else (VerifiedClients st)(client \<mapsto> vcCap - UseBytesParams.DealSize p))\<rparr>"
      from vc have "Verifiers st client = None" by (cases "Verifiers st client") (auto dest: pt)
      with st' show ?thesis by (auto simp: disjoint_roles_def dest: pt)
    qed
  next
    case (CallRestoreBytes p)
    with step have "RestoreBytes k rt st p = Inr st'" by simp
    then show ?thesis
    proof (rule RestoreBytes_Inr)
      fix client
      assume "Verifiers st client = None"
        and "st' = st\<lparr>VerifiedClients := (VerifiedClients st)(client \<mapsto>
             (case VerifiedClients st client of None \<Rightarrow> 0 | Some c \<Rightarrow> c)
               + RestoreBytesParams.DealSize p)\<rparr>"
      then show ?thesis by (auto simp: disjoint_roles_def dest: pt)
    qed
  qed
qed


lemma invoke_RootKey: "invoke k rt st c = Inr st' \<Longrightarrow> RootKey st' = RootKey st"
  by (cases c; simp; elim invoke_Inr; simp)

lemma invoke_root_isolated:
  "root_isolated st \<Longrightarrow> invoke k rt st c = Inr st' \<Longrightarrow> root_isolated st'"
  unfolding root_isolated_def
  by (cases c; simp; elim invoke_Inr; auto)

lemma invoke_caps_nonneg:
  assumes min: "0 \<le> MinVerifiedDealSize k" and inv: "caps_nonneg st"
    and step: "invoke k rt st c = Inr st'"
  shows "caps_nonneg st'"
proof -
  have v: "Verifiers st a = Some x \<Longrightarrow> 0 \<le> x" for a x
    using inv by (simp add: caps_nonneg_def)
  have vc: "VerifiedClients st a = Some x \<Longrightarrow> 0 \<le> x" for a x
    using inv by (simp add: caps_nonneg_def)
  show ?thesis
    using step min
    by (cases c; simp; elim invoke_Inr; 
        auto simp: caps_nonneg_def split: if_splits option.splits dest: v vc)
qed

lemma invoke_clients_floor:
  assumes min: "0 \<le> MinVerifiedDealSize k" and inv: "clients_floor k st"
    and step: "invoke k rt st c = Inr st'"
  shows "clients_floor k st'"
proof -
  have vc: "VerifiedClients st a = Some x \<Longrightarrow> MinVerifiedDealSize k \<le> x" for a x
    using inv by (simp add: clients_floor_def)
  show ?thesis
    using step min
    by (cases c; simp; elim invoke_Inr; 
        auto simp: clients_floor_def split: if_splits option.splits dest: vc)
qed


lemma Constructor_disjoint_roles: "Constructor k rt rootKey = Inr st \<Longrightarrow> disjoint_roles st"
  by (auto simp: disjoint_roles_def dest: Constructor_Inr)

lemma Constructor_root_isolated: "Constructor k rt rootKey = Inr st \<Longrightarrow> root_isolated st"
  by (auto simp: root_isolated_def dest: Constructor_Inr)

lemma Constructor_caps_nonneg: "Constructor k rt rootKey = Inr st \<Longrightarrow> caps_nonneg st"
  by (auto simp: caps_nonneg_def dest: Constructor_Inr)

lemma Constructor_clients_floor: "Constructor k rt rootKey = Inr st \<Longrightarrow> clients_floor k st"
  by (auto simp: clients_floor_def dest: Constructor_Inr)

lemma example_Constructor:
  "Constructor example_builtin (example_rt (ID 0)) (ID 100) = Inr example_init"
  by (simp add: Constructor_def ConstructState_def example_builtin_def example_rt_def
      example_resolve_def example_init_def)

lemma example_invoke_all:
  "invoke_all example_builtin example_init example_calls = Inr example_state"
  by (simp add: example_calls_def method_defs resolve_defs example_builtin_def
      example_rt_def example_resolve_def example_init_def example_state_def Let_def)

subsection \<open>Invariants along a run\<close>

lemma invoke_all_clients_floor:
  assumes "0 \<le> MinVerifiedDealSize k" and "Constructor k rt0 rootKey = Inr st0"
    and "invoke_all k st0 ms = Inr st"
  shows "clients_floor k st"
proof -
  have "clients_floor k st0" using assms(2) by (rule Constructor_clients_floor)
  then show ?thesis
    using assms(3)
    by (rule invoke_all_induct_inv[where P = "clients_floor k", rotated])
      (rule invoke_clients_floor[OF assms(1)])
qed

lemma invoke_all_caps_nonneg:
  assumes "0 \<le> MinVerifiedDealSize k" and "Constructor k rt0 rootKey = Inr st0"
    and "invoke_all k st0 ms = Inr st"
  shows "caps_nonneg st"
proof -
  have "caps_nonneg st0" using assms(2) by (rule Constructor_caps_nonneg)
  then show ?thesis
    using assms(3)
    by (rule invoke_all_induct_inv[where P = caps_nonneg, rotated])
      (rule invoke_caps_nonneg[OF assms(1)])
qed

lemma invoke_all_root_isolated:
  assumes "Constructor k rt0 rootKey = Inr st0" and "invoke_all k st0 ms = Inr st"
  shows "root_isolated st"
proof -
  have "root_isolated st0" using assms(1) by (rule Constructor_root_isolated)
  then show ?thesis
    using assms(2)
    by (rule invoke_all_induct_inv[where P = root_isolated, rotated])
      (rule invoke_root_isolated)
qed

lemma invoke_all_RootKey:
  "invoke_all k st0 ms = Inr st \<Longrightarrow> RootKey st = RootKey st0"
  by (rule invoke_all_induct_inv[where P = "\<lambda>s. RootKey s = RootKey st0" and st = st0])
    (simp_all add: invoke_RootKey)

lemmas example_defs = example_builtin_def example_rt_def example_resolve_def
  example_init_def example_state_def

subsection \<open>Role exclusivity\<close>

text \<open>
  Claim C1. After the constructor and any sequence of committed calls to AddVerifier,
  RemoveVerifier, AddVerifiedClient, UseBytes and RestoreBytes, no address is a key
  of both the Verifiers map and the VerifiedClients map.
\<close>

theorem roles_disjoint:
  assumes "Constructor k rt0 rootKey = Inr st0" and "invoke_all k st0 ms = Inr st"
  shows "dom (Verifiers st) \<inter> dom (VerifiedClients st) = {}"
proof -
  have "disjoint_roles st0" using assms(1) by (rule Constructor_disjoint_roles)
  then have "disjoint_roles st"
    using assms(2) by (rule invoke_all_induct_inv[where P = disjoint_roles, rotated])
      (rule invoke_disjoint_roles)
  then show ?thesis by (auto simp: disjoint_roles_def)
qed

theorem roles_disjoint_witness:
  "Constructor example_builtin (example_rt (ID 0)) (ID 100) = Inr example_init
   \<and> invoke_all example_builtin example_init example_calls = Inr example_state
   \<and> dom (Verifiers example_state) = {ID 101}
   \<and> dom (VerifiedClients example_state) = {ID 102}
   \<and> dom (Verifiers example_state) \<inter> dom (VerifiedClients example_state) = {}"
  using roles_disjoint [OF example_Constructor example_invoke_all]
    example_Constructor example_invoke_all
  by (simp add: example_state_def)

subsection \<open>Conservation in AddVerifiedClient\<close>

text \<open>
  Claim C2. A committed AddVerifiedClient, called by \<open>u\<close> for an address that
  resolves to \<open>c\<close>, leaves the verifier with its old cap less the allowance and the
  client with the allowance, so the two new caps add up to the verifier's old cap;
  and \<open>c\<close> was not a verified client before.
\<close>

theorem AddVerifiedClient_conservation:
  assumes "AddVerifiedClient k rt st p = Inr st'"
    and "ResolveToIDAddr rt (AddVerifiedClientParams.Address p) = Inr c"
    and "u = Caller rt"
  shows "\<exists>oldCap newCap clientCap.
           Verifiers st u = Some oldCap \<and> Verifiers st' u = Some newCap
           \<and> VerifiedClients st' c = Some clientCap
           \<and> newCap + clientCap = oldCap
           \<and> clientCap = AddVerifiedClientParams.Allowance p
           \<and> newCap = oldCap - AddVerifiedClientParams.Allowance p
           \<and> VerifiedClients st c = None"
  using assms(1)
proof (rule AddVerifiedClient_Inr)
  fix client verifierCap
  assume r: "ResolveToIDAddr rt (AddVerifiedClientParams.Address p) = Inr client"
    and v: "Verifiers st (Caller rt) = Some verifierCap"
    and nv: "Verifiers st client = None"
    and nc: "VerifiedClients st client = None"
    and st': "st' = st\<lparr>Verifiers := (Verifiers st)(Caller rt \<mapsto>
                    verifierCap - AddVerifiedClientParams.Allowance p),
               VerifiedClients := (VerifiedClients st)(client \<mapsto>
                    AddVerifiedClientParams.Allowance p)\<rparr>"
  from r assms(2) have c: "client = c" by simp
  show ?thesis using v nc st' c assms(3) by simp
qed

theorem AddVerifiedClient_conservation_witness:
  "AddVerifiedClient example_builtin (example_rt (ID 101))
     \<lparr>RootKey = ID 100, Verifiers = [ID 101 \<mapsto> 10000], VerifiedClients = Map.empty\<rparr>
     \<lparr>AddVerifiedClientParams.Address = Key ''client'',
      AddVerifiedClientParams.Allowance = 4000\<rparr> = Inr example_state
   \<and> ResolveToIDAddr (example_rt (ID 101)) (Key ''client'') = Inr (ID 102)
   \<and> Verifiers example_state (ID 101) = Some 6000
   \<and> VerifiedClients example_state (ID 102) = Some 4000"
proof -
  let ?st = "\<lparr>RootKey = ID 100, Verifiers = [ID 101 \<mapsto> 10000], VerifiedClients = Map.empty\<rparr>"
  let ?p = "\<lparr>AddVerifiedClientParams.Address = Key ''client'',
      AddVerifiedClientParams.Allowance = 4000\<rparr>"
  have a: "AddVerifiedClient example_builtin (example_rt (ID 101)) ?st ?p = Inr example_state"
    by (simp add: method_defs resolve_defs example_builtin_def example_rt_def
        example_resolve_def example_state_def Let_def)
  have b: "ResolveToIDAddr (example_rt (ID 101)) (AddVerifiedClientParams.Address ?p)
             = Inr (ID 102)"
    by (simp add: ResolveToIDAddr_def example_rt_def example_resolve_def)
  have c: "ID 101 = Caller (example_rt (ID 101))" by (simp add: example_rt_def)
  from AddVerifiedClient_conservation [OF a b c] a b show ?thesis
    by (simp add: example_state_def)
qed

subsection \<open>UseBytes and the floor on client caps\<close>

text \<open>
  Claim C3. A committed UseBytes on client \<open>c\<close> with cap \<open>cap\<close> deletes the entry of
  \<open>c\<close> when \<open>cap - dealSize\<close> is below the minimum verified deal size and stores
  \<open>cap - dealSize\<close> otherwise; and no state reached by committed calls holds a client
  cap strictly between zero and the minimum.
\<close>

theorem UseBytes_effect_and_floor:
  "(UseBytes k rt st p = Inr st' \<longrightarrow>
      (\<exists>c cap. ResolveToIDAddr rt (UseBytesParams.Address p) = Inr c
         \<and> VerifiedClients st c = Some cap
         \<and> (let newCap = cap - UseBytesParams.DealSize p
            in VerifiedClients st' =
                 (if newCap < MinVerifiedDealSize k
                  then (VerifiedClients st)(c := None)
                  else (VerifiedClients st)(c \<mapsto> newCap)))
         \<and> Verifiers st' = Verifiers st \<and> RootKey st' = RootKey st))
   \<and> (Constructor k rt_init rootKey = Inr st_init \<longrightarrow> invoke_all k st_init ms = Inr s \<longrightarrow>
        VerifiedClients s a = Some v \<longrightarrow> \<not> (0 < v \<and> v < MinVerifiedDealSize k))"
proof (intro conjI impI)
  assume "UseBytes k rt st p = Inr st'"
  then show "\<exists>c cap. ResolveToIDAddr rt (UseBytesParams.Address p) = Inr c
         \<and> VerifiedClients st c = Some cap
         \<and> (let newCap = cap - UseBytesParams.DealSize p
            in VerifiedClients st' =
                 (if newCap < MinVerifiedDealSize k
                  then (VerifiedClients st)(c := None)
                  else (VerifiedClients st)(c \<mapsto> newCap)))
         \<and> Verifiers st' = Verifiers st \<and> RootKey st' = RootKey st"
    by (rule UseBytes_Inr) (simp add: Let_def)
next
  assume c: "Constructor k rt_init rootKey = Inr st_init" and r: "invoke_all k st_init ms = Inr s"
    and v: "VerifiedClients s a = Some v"
  show "\<not> (0 < v \<and> v < MinVerifiedDealSize k)"
  proof (cases "0 \<le> MinVerifiedDealSize k")
    case True
    from invoke_all_clients_floor[OF True c r] v have "MinVerifiedDealSize k \<le> v"
      by (simp add: clients_floor_def)
    then show ?thesis by simp
  next
    case False
    then show ?thesis by simp
  qed
qed

theorem UseBytes_effect_and_floor_witness:
  "UseBytes example_builtin (example_rt (ID 5)) example_state
     \<lparr>UseBytesParams.Address = Key ''client'', UseBytesParams.DealSize = 3500\<rparr>
   = Inr \<lparr>RootKey = ID 100, Verifiers = [ID 101 \<mapsto> 6000], VerifiedClients = Map.empty\<rparr>
   \<and> UseBytes example_builtin (example_rt (ID 5)) example_state
     \<lparr>UseBytesParams.Address = Key ''client'', UseBytesParams.DealSize = 2000\<rparr>
   = Inr \<lparr>RootKey = ID 100, Verifiers = [ID 101 \<mapsto> 6000],
          VerifiedClients = [ID 102 \<mapsto> 2000]\<rparr>
   \<and> Constructor example_builtin (example_rt (ID 0)) (ID 100) = Inr example_init
   \<and> invoke_all example_builtin example_init example_calls = Inr example_state
   \<and> VerifiedClients example_state (ID 102) = Some 4000
   \<and> \<not> (0 < (4000::int) \<and> 4000 < MinVerifiedDealSize example_builtin)"
proof -
  let ?p = "\<lparr>UseBytesParams.Address = Key ''client'', UseBytesParams.DealSize = 3500\<rparr>"
  let ?q = "\<lparr>UseBytesParams.Address = Key ''client'', UseBytesParams.DealSize = 2000\<rparr>"
  let ?s1 = "\<lparr>RootKey = ID 100, Verifiers = [ID 101 \<mapsto> 6000], VerifiedClients = Map.empty\<rparr>"
  let ?s2 = "\<lparr>RootKey = ID 100, Verifiers = [ID 101 \<mapsto> 6000],
              VerifiedClients = [ID 102 \<mapsto> 2000]\<rparr>"
  have a: "UseBytes example_builtin (example_rt (ID 5)) example_state ?p = Inr ?s1"
    by (simp add: method_defs resolve_defs example_defs Let_def)
  have b: "UseBytes example_builtin (example_rt (ID 5)) example_state ?q = Inr ?s2"
    by (simp add: method_defs resolve_defs example_defs Let_def)
  have c: "VerifiedClients example_state (ID 102) = Some 4000"
    by (simp add: example_state_def)
  from UseBytes_effect_and_floor [where k = example_builtin and rt = "example_rt (ID 5)"
      and st = example_state and p = ?p and st' = ?s1 and rt_init = "example_rt (ID 0)"
      and rootKey = "ID 100" and st_init = example_init and ms = example_calls
      and s = example_state and a = "ID 102" and v = 4000]
    a b c example_Constructor example_invoke_all
  show ?thesis by simp
qed

subsection \<open>Order of the checks in UseBytes\<close>

text \<open>
  Claim C4 says that UseBytes checks the deal size before it resolves the address. The
  code resolves first: a call by the storage market with a deal size below the
  minimum and an address that does not resolve, the send to it being refused, stops
  with the exit code of the send, not with \<open>ErrIllegalArgument\<close>.
\<close>

theorem UseBytes_size_check_first_counterexample:
  "Caller (example_rt (ID 5)) = StorageMarketActorAddr example_builtin
   \<and> (10::int) < MinVerifiedDealSize example_builtin
   \<and> ResolveToIDAddr (example_rt (ID 5)) (Key ''nobody'')
       = Inl (ExitCodeError SysErrInvalidReceiver)
   \<and> UseBytes example_builtin (example_rt (ID 5)) example_state
        \<lparr>UseBytesParams.Address = Key ''nobody'', UseBytesParams.DealSize = 10\<rparr>
      = Inl (Abort SysErrInvalidReceiver)
   \<and> UseBytes example_builtin (example_rt (ID 5)) example_state
        \<lparr>UseBytesParams.Address = Key ''nobody'', UseBytesParams.DealSize = 10\<rparr>
      \<noteq> Inl (Abort ErrIllegalArgument)"
  by (simp add: UseBytes_def resolve_defs example_defs)

text \<open>
  Claim C4, as the code has it. In a call by the storage market, UseBytes resolves the
  address first: when that fails the call stops with the failure of the resolution
  (the exit code the error wraps, \<open>ErrIllegalState\<close> when it wraps none), whatever the
  deal size. The deal size is checked only after the address has resolved, and a
  size below the minimum then stops the call with \<open>ErrIllegalArgument\<close>.
\<close>

theorem UseBytes_resolves_before_size_check:
  assumes "Caller rt = StorageMarketActorAddr k"
  shows "(ResolveToIDAddr rt (UseBytesParams.Address p) = Inl err \<longrightarrow>
            UseBytes k rt st p = Inl (Abort (Unwrap err ErrIllegalState)))
       \<and> (ResolveToIDAddr rt (UseBytesParams.Address p) = Inr c \<longrightarrow>
            UseBytesParams.DealSize p < MinVerifiedDealSize k \<longrightarrow>
            UseBytes k rt st p = Inl (Abort ErrIllegalArgument))"
  using assms by (simp add: UseBytes_def RequireNoErr_def)

theorem UseBytes_resolves_before_size_check_witness:
  "Caller (example_rt (ID 5)) = StorageMarketActorAddr example_builtin
   \<and> ResolveToIDAddr (example_rt (ID 5)) (Key ''nobody'')
       = Inl (ExitCodeError SysErrInvalidReceiver)
   \<and> UseBytes example_builtin (example_rt (ID 5)) example_state
        \<lparr>UseBytesParams.Address = Key ''nobody'', UseBytesParams.DealSize = 10\<rparr>
      = Inl (Abort SysErrInvalidReceiver)
   \<and> ResolveToIDAddr (example_rt (ID 5)) (Key ''ghost'') = Inl PlainError
   \<and> UseBytes example_builtin (example_rt (ID 5)) example_state
        \<lparr>UseBytesParams.Address = Key ''ghost'', UseBytesParams.DealSize = 10\<rparr>
      = Inl (Abort ErrIllegalState)
   \<and> ResolveToIDAddr (example_rt (ID 5)) (Key ''client'') = Inr (ID 102)
   \<and> UseBytes example_builtin (example_rt (ID 5)) example_state
        \<lparr>UseBytesParams.Address = Key ''client'', UseBytesParams.DealSize = 10\<rparr>
      = Inl (Abort ErrIllegalArgument)"
proof -
  have c: "Caller (example_rt (ID 5)) = StorageMarketActorAddr example_builtin"
    by (simp add: example_defs)
  have r1: "ResolveToIDAddr (example_rt (ID 5)) (Key ''nobody'')
              = Inl (ExitCodeError SysErrInvalidReceiver)"
    by (simp add: ResolveToIDAddr_def example_defs)
  have r2: "ResolveToIDAddr (example_rt (ID 5)) (Key ''ghost'') = Inl PlainError"
    by (simp add: ResolveToIDAddr_def example_defs)
  have r3: "ResolveToIDAddr (example_rt (ID 5)) (Key ''client'') = Inr (ID 102)"
    by (simp add: ResolveToIDAddr_def example_defs)
  note t = UseBytes_resolves_before_size_check [OF c, where st = example_state]
  from c r1 r2 r3
    t [of "\<lparr>UseBytesParams.Address = Key ''nobody'', UseBytesParams.DealSize = 10\<rparr>"
          "ExitCodeError SysErrInvalidReceiver"]
    t [of "\<lparr>UseBytesParams.Address = Key ''ghost'', UseBytesParams.DealSize = 10\<rparr>"
          PlainError]
    t [of "\<lparr>UseBytesParams.Address = Key ''client'', UseBytesParams.DealSize = 10\<rparr>"
          _ "ID 102"]
  show ?thesis by (simp add: example_builtin_def)
qed

subsection \<open>Caps are never negative\<close>

text \<open>
  Claim C5. When the minimum verified deal size is not negative, every cap in either
  map of a state reached by committed calls is at least zero, and in such a state the
  assertion of UseBytes on the cap it has looked up never fails.
\<close>

theorem caps_never_negative:
  assumes "0 \<le> MinVerifiedDealSize k" and "Constructor k rt_init rootKey = Inr st_init"
    and "invoke_all k st_init ms = Inr st"
  shows "(\<forall>a v. Verifiers st a = Some v \<longrightarrow> 0 \<le> v)
       \<and> (\<forall>a v. VerifiedClients st a = Some v \<longrightarrow> 0 \<le> v)
       \<and> (\<forall>rt p. UseBytes k rt st p \<noteq> Inl AssertionFailed)"
proof -
  have inv: "caps_nonneg st" using assms by (rule invoke_all_caps_nonneg)
  then have vc: "VerifiedClients st a = Some v \<Longrightarrow> 0 \<le> v" for a v
    by (simp add: caps_nonneg_def)
  have "UseBytes k rt st p \<noteq> Inl AssertionFailed" for rt p
    by (auto simp: UseBytes_def RequireNoErr_def Map_Get_def Map_Delete_def Let_def
        dest: vc split: option.splits sum.splits)
  with inv show ?thesis by (simp add: caps_nonneg_def)
qed

theorem caps_never_negative_witness:
  "0 \<le> MinVerifiedDealSize example_builtin
   \<and> Constructor example_builtin (example_rt (ID 0)) (ID 100) = Inr example_init
   \<and> invoke_all example_builtin example_init example_calls = Inr example_state
   \<and> Verifiers example_state (ID 101) = Some 6000
   \<and> VerifiedClients example_state (ID 102) = Some 4000
   \<and> UseBytes example_builtin (example_rt (ID 5)) example_state
        \<lparr>UseBytesParams.Address = Key ''client'', UseBytesParams.DealSize = 3500\<rparr>
      \<noteq> Inl AssertionFailed"
proof -
  have m: "0 \<le> MinVerifiedDealSize example_builtin" by (simp add: example_builtin_def)
  from caps_never_negative [OF m example_Constructor example_invoke_all]
    m example_Constructor example_invoke_all
  show ?thesis by (simp add: example_state_def)
qed

subsection \<open>The root key has no role\<close>

text \<open>
  Claim C6. In a state reached by committed calls the root key is the one the
  constructor stored and is a key of neither map. AddVerifier called by the root key
  for the root key, AddVerifiedClient for the root key, and RestoreBytes called by the
  storage market for the root key all stop with \<open>ErrIllegalArgument\<close>.
\<close>

theorem root_key_in_neither_map:
  "(Constructor k rt_init rootKey = Inr st_init \<longrightarrow> invoke_all k st_init ms = Inr st \<longrightarrow>
      RootKey st = RootKey st_init
      \<and> Verifiers st (RootKey st) = None \<and> VerifiedClients st (RootKey st) = None)
   \<and> (Caller rt_av = RootKey s \<longrightarrow>
        ResolveToIDAddr rt_av (AddVerifierParams.Address pv) = Inr (RootKey s) \<longrightarrow>
        AddVerifier k rt_av s pv = Inl (Abort ErrIllegalArgument))
   \<and> (ResolveToIDAddr rt_ac (AddVerifiedClientParams.Address pc) = Inr (RootKey s) \<longrightarrow>
        AddVerifiedClient k rt_ac s pc = Inl (Abort ErrIllegalArgument))
   \<and> (Caller rt_rb = StorageMarketActorAddr k \<longrightarrow>
        ResolveToIDAddr rt_rb (RestoreBytesParams.Address pr) = Inr (RootKey s) \<longrightarrow>
        RestoreBytes k rt_rb s pr = Inl (Abort ErrIllegalArgument))"
proof (intro conjI impI)
  assume c: "Constructor k rt_init rootKey = Inr st_init" and r: "invoke_all k st_init ms = Inr st"
  from invoke_all_root_isolated[OF c r]
  show "Verifiers st (RootKey st) = None" and "VerifiedClients st (RootKey st) = None"
    by (simp_all add: root_isolated_def)
  from r show "RootKey st = RootKey st_init" by (rule invoke_all_RootKey)
qed (simp_all add: AddVerifier_def AddVerifiedClient_def RestoreBytes_def)

theorem root_key_in_neither_map_witness:
  "Constructor example_builtin (example_rt (ID 0)) (ID 100) = Inr example_init
   \<and> invoke_all example_builtin example_init example_calls = Inr example_state
   \<and> RootKey example_state = ID 100
   \<and> Verifiers example_state (ID 100) = None
   \<and> VerifiedClients example_state (ID 100) = None
   \<and> AddVerifier example_builtin (example_rt (ID 100)) example_state
        \<lparr>AddVerifierParams.Address = ID 100, AddVerifierParams.Allowance = 2000\<rparr>
      = Inl (Abort ErrIllegalArgument)
   \<and> AddVerifiedClient example_builtin (example_rt (ID 101)) example_state
        \<lparr>AddVerifiedClientParams.Address = ID 100, AddVerifiedClientParams.Allowance = 2000\<rparr>
      = Inl (Abort ErrIllegalArgument)
   \<and> RestoreBytes example_builtin (example_rt (ID 5)) example_state
        \<lparr>RestoreBytesParams.Address = ID 100, RestoreBytesParams.DealSize = 2000\<rparr>
      = Inl (Abort ErrIllegalArgument)"
proof -
  have c1: "Caller (example_rt (ID 100)) = RootKey example_state"
    by (simp add: example_defs)
  have c3: "Caller (example_rt (ID 5)) = StorageMarketActorAddr example_builtin"
    by (simp add: example_defs)
  have res: "ResolveToIDAddr (example_rt x) (ID 100) = Inr (RootKey example_state)" for x
    by (simp add: ResolveToIDAddr_def example_defs)
  from root_key_in_neither_map [where k = example_builtin and rt_init = "example_rt (ID 0)"
      and rootKey = "ID 100" and st_init = example_init and ms = example_calls
      and st = example_state and s = example_state
      and rt_av = "example_rt (ID 100)" and rt_ac = "example_rt (ID 101)"
      and rt_rb = "example_rt (ID 5)"
      and pv = "\<lparr>AddVerifierParams.Address = ID 100, AddVerifierParams.Allowance = 2000\<rparr>"
      and pc = "\<lparr>AddVerifiedClientParams.Address = ID 100,
                  AddVerifiedClientParams.Allowance = 2000\<rparr>"
      and pr = "\<lparr>RestoreBytesParams.Address = ID 100, RestoreBytesParams.DealSize = 2000\<rparr>"]
    example_Constructor example_invoke_all c1 c3 res
  show ?thesis by (simp add: example_init_def example_state_def)
qed

subsection \<open>RestoreBytes\<close>

text \<open>
  Claim C7. A committed RestoreBytes for an address that resolves to \<open>c\<close> sets the cap
  of \<open>c\<close> to its previous cap, or zero if it had none, plus the deal size; it leaves
  every other client and the whole Verifiers map as they were.
\<close>

theorem RestoreBytes_effect:
  assumes "RestoreBytes k rt st p = Inr st'"
  shows "\<exists>c. ResolveToIDAddr rt (RestoreBytesParams.Address p) = Inr c
           \<and> VerifiedClients st' c =
               Some ((case VerifiedClients st c of None \<Rightarrow> 0 | Some current \<Rightarrow> current)
                     + RestoreBytesParams.DealSize p)
           \<and> (\<forall>a. a \<noteq> c \<longrightarrow> VerifiedClients st' a = VerifiedClients st a)
           \<and> Verifiers st' = Verifiers st"
  using assms by (rule RestoreBytes_Inr) simp

theorem RestoreBytes_effect_witness:
  "RestoreBytes example_builtin (example_rt (ID 5))
     \<lparr>RootKey = ID 100, Verifiers = [ID 101 \<mapsto> 6000], VerifiedClients = Map.empty\<rparr>
     \<lparr>RestoreBytesParams.Address = Key ''client'', RestoreBytesParams.DealSize = 2000\<rparr>
   = Inr \<lparr>RootKey = ID 100, Verifiers = [ID 101 \<mapsto> 6000],
          VerifiedClients = [ID 102 \<mapsto> 2000]\<rparr>
   \<and> RestoreBytes example_builtin (example_rt (ID 5)) example_state
     \<lparr>RestoreBytesParams.Address = Key ''client'', RestoreBytesParams.DealSize = 2000\<rparr>
   = Inr \<lparr>RootKey = ID 100, Verifiers = [ID 101 \<mapsto> 6000],
          VerifiedClients = [ID 102 \<mapsto> 6000]\<rparr>"
proof -
  let ?p = "\<lparr>RestoreBytesParams.Address = Key ''client'', RestoreBytesParams.DealSize = 2000\<rparr>"
  let ?st = "\<lparr>RootKey = ID 100, Verifiers = [ID 101 \<mapsto> 6000], VerifiedClients = Map.empty\<rparr>"
  have a: "RestoreBytes example_builtin (example_rt (ID 5)) ?st ?p
     = Inr \<lparr>RootKey = ID 100, Verifiers = [ID 101 \<mapsto> 6000],
          VerifiedClients = [ID 102 \<mapsto> 2000]\<rparr>"
    by (simp add: method_defs resolve_defs example_builtin_def example_rt_def
        example_resolve_def Let_def)
  have b: "RestoreBytes example_builtin (example_rt (ID 5)) example_state ?p
     = Inr \<lparr>RootKey = ID 100, Verifiers = [ID 101 \<mapsto> 6000],
          VerifiedClients = [ID 102 \<mapsto> 6000]\<rparr>"
    by (simp add: method_defs resolve_defs example_builtin_def example_rt_def
        example_resolve_def Let_def example_state_def)
  from RestoreBytes_effect [OF a] RestoreBytes_effect [OF b] a b show ?thesis by simp
qed

subsection \<open>AddVerifier replaces the cap\<close>

text \<open>
  Claim C8. A committed AddVerifier for an address that resolves to a verifier \<open>v\<close>
  with a prior cap leaves \<open>v\<close> with exactly the allowance; and the call does commit
  for such a \<open>v\<close> whenever its other checks pass, so it is not limited to fresh
  addresses.
\<close>

theorem AddVerifier_overwrites:
  "(AddVerifier k rt st p = Inr st' \<longrightarrow>
      ResolveToIDAddr rt (AddVerifierParams.Address p) = Inr v \<longrightarrow>
      Verifiers st v = Some prior \<longrightarrow>
      Verifiers st' v = Some (AddVerifierParams.Allowance p))
   \<and> (MinVerifiedDealSize k \<le> AddVerifierParams.Allowance p \<longrightarrow>
        ResolveToIDAddr rt (AddVerifierParams.Address p) = Inr v \<longrightarrow>
        Caller rt = RootKey st \<longrightarrow> v \<noteq> RootKey st \<longrightarrow> VerifiedClients st v = None \<longrightarrow>
        Verifiers st v = Some prior \<longrightarrow>
        AddVerifier k rt st p =
          Inr (st\<lparr>Verifiers := (Verifiers st)(v \<mapsto> AddVerifierParams.Allowance p)\<rparr>))"
  by (auto simp: AddVerifier_def Map_Get_def Map_Put_def Let_def
      split: if_splits option.splits)

theorem AddVerifier_overwrites_witness:
  "AddVerifier example_builtin (example_rt (ID 100))
     \<lparr>RootKey = ID 100, Verifiers = [ID 101 \<mapsto> 10000], VerifiedClients = Map.empty\<rparr>
     \<lparr>AddVerifierParams.Address = ID 101, AddVerifierParams.Allowance = 2000\<rparr>
   = Inr \<lparr>RootKey = ID 100, Verifiers = [ID 101 \<mapsto> 2000], VerifiedClients = Map.empty\<rparr>"
proof -
  let ?st = "\<lparr>RootKey = ID 100, Verifiers = [ID 101 \<mapsto> 10000], VerifiedClients = Map.empty\<rparr>"
  let ?p = "\<lparr>AddVerifierParams.Address = ID 101, AddVerifierParams.Allowance = 2000\<rparr>"
  have res: "ResolveToIDAddr (example_rt (ID 100)) (AddVerifierParams.Address ?p) = Inr (ID 101)"
    by (simp add: ResolveToIDAddr_def example_defs)
  from AddVerifier_overwrites [where k = example_builtin and rt = "example_rt (ID 100)"
      and st = ?st and p = ?p and v = "ID 101" and prior = 10000
      and st' = "\<lparr>RootKey = ID 100, Verifiers = [ID 101 \<mapsto> 2000],
                   VerifiedClients = Map.empty\<rparr>"] res
  show ?thesis by (simp add: example_defs)
qed

subsection \<open>Order of the checks in AddVerifier\<close>

text \<open>
  Claim C10 says that a call of AddVerifier by anyone but the root key, for an address
  that cannot be resolved, stops with \<open>ErrIllegalState\<close>. When the send to the address
  is refused, the call stops with the exit code of the send instead.
\<close>

theorem AddVerifier_unresolved_counterexample:
  "Caller (example_rt (ID 101)) \<noteq> RootKey example_state
   \<and> MinVerifiedDealSize example_builtin \<le> 2000
   \<and> ResolveToIDAddr (example_rt (ID 101)) (Key ''nobody'')
       = Inl (ExitCodeError SysErrInvalidReceiver)
   \<and> AddVerifier example_builtin (example_rt (ID 101)) example_state
        \<lparr>AddVerifierParams.Address = Key ''nobody'', AddVerifierParams.Allowance = 2000\<rparr>
      = Inl (Abort SysErrInvalidReceiver)
   \<and> AddVerifier example_builtin (example_rt (ID 101)) example_state
        \<lparr>AddVerifierParams.Address = Key ''nobody'', AddVerifierParams.Allowance = 2000\<rparr>
      \<noteq> Inl (Abort ErrIllegalState)"
  by (simp add: AddVerifier_def resolve_defs example_defs)

text \<open>
  Claim C10, as the code has it. In a call of AddVerifier by anyone but the root key:
  an allowance below the minimum stops the call with \<open>ErrIllegalArgument\<close>; otherwise
  an address that does not resolve stops it with the failure of the resolution (the
  exit code the error wraps, \<open>ErrIllegalState\<close> when it wraps none); and when both of
  these checks have passed the caller is refused.
\<close>

theorem AddVerifier_checks_before_caller:
  assumes "Caller rt \<noteq> RootKey st"
  shows "(AddVerifierParams.Allowance p < MinVerifiedDealSize k \<longrightarrow>
            AddVerifier k rt st p = Inl (Abort ErrIllegalArgument))
       \<and> (MinVerifiedDealSize k \<le> AddVerifierParams.Allowance p \<longrightarrow>
            ResolveToIDAddr rt (AddVerifierParams.Address p) = Inl err \<longrightarrow>
            AddVerifier k rt st p = Inl (Abort (Unwrap err ErrIllegalState)))
       \<and> (MinVerifiedDealSize k \<le> AddVerifierParams.Allowance p \<longrightarrow>
            ResolveToIDAddr rt (AddVerifierParams.Address p) = Inr v \<longrightarrow>
            AddVerifier k rt st p = Inl (Abort SysErrForbidden))"
  using assms by (simp add: AddVerifier_def RequireNoErr_def)

theorem AddVerifier_checks_before_caller_witness:
  "Caller (example_rt (ID 101)) \<noteq> RootKey example_state
   \<and> AddVerifier example_builtin (example_rt (ID 101)) example_state
        \<lparr>AddVerifierParams.Address = Key ''nobody'', AddVerifierParams.Allowance = 10\<rparr>
      = Inl (Abort ErrIllegalArgument)
   \<and> ResolveToIDAddr (example_rt (ID 101)) (Key ''nobody'')
       = Inl (ExitCodeError SysErrInvalidReceiver)
   \<and> AddVerifier example_builtin (example_rt (ID 101)) example_state
        \<lparr>AddVerifierParams.Address = Key ''nobody'', AddVerifierParams.Allowance = 2000\<rparr>
      = Inl (Abort SysErrInvalidReceiver)
   \<and> ResolveToIDAddr (example_rt (ID 101)) (Key ''ghost'') = Inl PlainError
   \<and> AddVerifier example_builtin (example_rt (ID 101)) example_state
        \<lparr>AddVerifierParams.Address = Key ''ghost'', AddVerifierParams.Allowance = 2000\<rparr>
      = Inl (Abort ErrIllegalState)
   \<and> ResolveToIDAddr (example_rt (ID 101)) (ID 103) = Inr (ID 103)
   \<and> AddVerifier example_builtin (example_rt (ID 101)) example_state
        \<lparr>AddVerifierParams.Address = ID 103, AddVerifierParams.Allowance = 2000\<rparr>
      = Inl (Abort SysErrForbidden)"
proof -
  have c: "Caller (example_rt (ID 101)) \<noteq> RootKey example_state"
    by (simp add: example_defs)
  have r1: "ResolveToIDAddr (example_rt (ID 101)) (Key ''nobody'')
              = Inl (ExitCodeError SysErrInvalidReceiver)"
    by (simp add: ResolveToIDAddr_def example_defs)
  have r2: "ResolveToIDAddr (example_rt (ID 101)) (Key ''ghost'') = Inl PlainError"
    by (simp add: ResolveToIDAddr_def example_defs)
  have r3: "ResolveToIDAddr (example_rt (ID 101)) (ID 103) = Inr (ID 103)"
    by (simp add: ResolveToIDAddr_def example_defs)
  note t = AddVerifier_checks_before_caller [OF c, where k = example_builtin]
  from c r1 r2 r3
    t [of "\<lparr>AddVerifierParams.Address = Key ''nobody'', AddVerifierParams.Allowance = 10\<rparr>"]
    t [of "\<lparr>AddVerifierParams.Address = Key ''nobody'', AddVerifierParams.Allowance = 2000\<rparr>"
          "ExitCodeError SysErrInvalidReceiver"]
    t [of "\<lparr>AddVerifierParams.Address = Key ''ghost'', AddVerifierParams.Allowance = 2000\<rparr>"
          PlainError]
    t [of "\<lparr>AddVerifierParams.Address = ID 103, AddVerifierParams.Allowance = 2000\<rparr>"
          _ "ID 103"]
  show ?thesis by (simp add: example_builtin_def)
qed

section \<open>Properties of the metrics block store\<close>

lemma MetricsBlockStore_Get_eq:
  "MetricsBlockStore_Get u ms c =
     (case fst (Get u (bs ms) c) of
        Inl err \<Rightarrow> (Inl err, ms\<lparr>Reads := Reads ms + 1, bs := snd (Get u (bs ms) c)\<rparr>)
      | Inr blk \<Rightarrow> (Inr blk, ms\<lparr>Reads := Reads ms + 1, bs := snd (Get u (bs ms) c),
                         ReadBytes := ReadBytes ms + of_nat (length (RawData blk))\<rparr>))"
  by (simp add: MetricsBlockStore_Get_def Let_def split: prod.splits sum.splits)

lemma MetricsBlockStore_Put_eq:
  "MetricsBlockStore_Put u ms b =
     (fst (Put u (bs ms) b),
      ms\<lparr>Writes := Writes ms + 1,
         WriteBytes := WriteBytes ms + of_nat (length (RawData b)),
         bs := snd (Put u (bs ms) b)\<rparr>)"
  by (simp add: MetricsBlockStore_Put_def Let_def split: prod.splits)

text \<open>
  Claim C9. Get on the metrics store counts the read, and adds the length of the block
  to the read bytes only when the store below returns a block; Put counts the write
  and adds the length of the block to the written bytes whatever the store below
  returns. The four accessors return the four counters.
\<close>

theorem metrics_byte_counts:
  "fst (MetricsBlockStore_Get u ms c) = fst (Get u (bs ms) c)
   \<and> ReadCount (snd (MetricsBlockStore_Get u ms c)) = ReadCount ms + 1
   \<and> ReadSize (snd (MetricsBlockStore_Get u ms c)) =
       (case fst (Get u (bs ms) c) of
          Inl err \<Rightarrow> ReadSize ms
        | Inr blk \<Rightarrow> ReadSize ms + of_nat (length (RawData blk)))
   \<and> WriteCount (snd (MetricsBlockStore_Get u ms c)) = WriteCount ms
   \<and> WriteSize (snd (MetricsBlockStore_Get u ms c)) = WriteSize ms
   \<and> fst (MetricsBlockStore_Put u ms b) = fst (Put u (bs ms) b)
   \<and> WriteCount (snd (MetricsBlockStore_Put u ms b)) = WriteCount ms + 1
   \<and> WriteSize (snd (MetricsBlockStore_Put u ms b)) =
       WriteSize ms + of_nat (length (RawData b))
   \<and> ReadCount (snd (MetricsBlockStore_Put u ms b)) = ReadCount ms
   \<and> ReadSize (snd (MetricsBlockStore_Put u ms b)) = ReadSize ms
   \<and> ReadCount ms = Reads ms \<and> WriteCount ms = Writes ms
   \<and> ReadSize ms = ReadBytes ms \<and> WriteSize ms = WriteBytes ms"
  by (simp add: MetricsBlockStore_Get_eq MetricsBlockStore_Put_eq ReadCount_def
      WriteCount_def ReadSize_def WriteSize_def split: sum.splits)

theorem metrics_byte_counts_witness:
  "fst (Put failing_store () example_block) = Some ''unavailable''
   \<and> fst (MetricsBlockStore_Put failing_store (NewMetricsBlockStore ()) example_block)
       = Some ''unavailable''
   \<and> WriteSize (snd (MetricsBlockStore_Put failing_store (NewMetricsBlockStore ())
         example_block)) = 5
   \<and> fst (Get failing_store () [7]) = Inl ''unavailable''
   \<and> ReadCount (snd (MetricsBlockStore_Get failing_store (NewMetricsBlockStore ()) [7])) = 1
   \<and> ReadSize (snd (MetricsBlockStore_Get failing_store (NewMetricsBlockStore ()) [7])) = 0
   \<and> fst (Get BlockStoreInMemory_impl \<lparr>data = [[7] \<mapsto> example_block]\<rparr> [7])
       = Inr example_block
   \<and> ReadSize (snd (MetricsBlockStore_Get BlockStoreInMemory_impl
         (NewMetricsBlockStore \<lparr>data = [[7] \<mapsto> example_block]\<rparr>) [7])) = 5"
  using metrics_byte_counts [of failing_store "NewMetricsBlockStore ()" "[7]" example_block]
    metrics_byte_counts [of BlockStoreInMemory_impl
      "NewMetricsBlockStore \<lparr>data = [[7] \<mapsto> example_block]\<rparr>" "[7]" example_block]
  by (simp add: failing_store_def NewMetricsBlockStore_def example_block_def
      BlockStoreInMemory_impl_def BlockStoreInMemory_Get_def ReadCount_def
      WriteCount_def ReadSize_def WriteSize_def)

end
